theory Spec2Isabelle
  imports Complex_Main "HOL-Library.Log_Nat"
begin

section \<open>Pixel and coordinate values\<close>

text \<open>
  The notebook \<^verbatim>\<open>code/01_process_raw_data.ipynb\<close> works on NumPy floating-point arrays.
  A floating-point value is modelled by what it denotes: not-a-number, an infinity, the
  negative zero, or a finite real number (\<open>Fin 0\<close> is the positive zero). Every finite
  IEEE-754 value is a real number, so a statement proved for all \<open>fval\<close> holds for all
  values an array can hold. The operations defined on this type directly are those that
  IEEE-754 performs without rounding (comparison with zero, multiplication by \<open>-1\<close>,
  rounding to an integral value); narrowing to 32 bits and the 64-bit arithmetic of the
  text parser are defined separately, with their rounding written out. The payload bits
  of a not-a-number are not modelled.

  After \<^verbatim>\<open>open_rasterio(..., mask_and_scale=True)\<close> a missing pixel is held as
  not-a-number in memory.
\<close>

datatype fval = NaN | PInf | NInf | NegZero | Fin real

fun isnan :: "fval \<Rightarrow> bool" where
  "isnan NaN = True"
| "isnan v = False"

fun isfinite :: "fval \<Rightarrow> bool" where
  "isfinite NaN = False"
| "isfinite PInf = False"
| "isfinite NInf = False"
| "isfinite NegZero = True"
| "isfinite (Fin r) = True"

text \<open>\<^verbatim>\<open>v < 0\<close>: false for not-a-number and for both zeros.\<close>

fun less_zero :: "fval \<Rightarrow> bool" where
  "less_zero NaN = False"
| "less_zero PInf = False"
| "less_zero NInf = True"
| "less_zero NegZero = False"
| "less_zero (Fin r) = (r < 0)"

text \<open>
  \<^verbatim>\<open>v * -1\<close>: the product with \<open>-1.0\<close> is exact; the sign is flipped, a zero
  included, and a not-a-number stays one.
\<close>

fun mul_neg1 :: "fval \<Rightarrow> fval" where
  "mul_neg1 NaN = NaN"
| "mul_neg1 PInf = NInf"
| "mul_neg1 NInf = PInf"
| "mul_neg1 NegZero = Fin 0"
| "mul_neg1 (Fin r) = (if r = 0 then NegZero else Fin (r * -1))"

type_synonym array2d = "fval list list"

section \<open>Configuration (notebook cell 2)\<close>

text \<open>
  The properties of the output mosaic. The resolution and the bounding box fix the
  number of rows and columns of the canvas, which the merge below takes as \<open>h\<close> and
  \<open>w\<close>.
\<close>

datatype dtype = Float32 | Float64

definition epsg :: nat where "epsg = 25833"
definition no_data_val :: real where "no_data_val = -9999"
definition dst_dtype :: dtype where "dst_dtype = Float32"

section \<open>Value transforms (notebook cells 5 and 6)\<close>

text \<open>\<^verbatim>\<open>bathy_ds.data = bathy_ds.data * -1\<close>\<close>

definition sign_inversion :: "array2d \<Rightarrow> array2d" where
  "sign_inversion a = map (map mul_neg1) a"

text \<open>
  The NumPy assignment \<^verbatim>\<open>a[a < 0] = 0\<close> on an array \<open>a\<close>: the values the comparison
  selects are overwritten with zero, the others are kept. Which array the statement
  \<^verbatim>\<open>dem_ds.data[dem_ds.data < 0] = 0\<close> of cell 6 acts on is modelled further below.
\<close>

definition floor_clip :: "array2d \<Rightarrow> array2d" where
  "floor_clip a = map (map (\<lambda>v. if less_zero v then Fin 0 else v)) a"

section \<open>Grid Repair: rounding a table (notebook cell 4)\<close>

text \<open>
  The exceptions the modelled library calls raise. \<open>MissingCRS\<close> belongs to the merge
  below.
\<close>

datatype error =
    FileNotFoundError
  | EmptyDataError
  | IntCastingNaNError
  | MissingCRS

text \<open>
  A row of a tile as \<^verbatim>\<open>pd.read_csv(fpath, sep=" ", header=None)\<close> delivers it: columns
  0, 1, 2 are x, y, z, floating-point values (a column that holds whole numbers only
  is delivered as integers, which rounding and conversion keep as they are: the whole
  number as a floating-point value stands for it). A row of a repaired tile has integer
  x and y.
\<close>

record point =
  px :: fval
  py :: fval
  pz :: fval

record cpoint =
  cx :: int
  cy :: int
  cz :: fval

text \<open>
  \<^verbatim>\<open>Series.round()\<close> is NumPy's \<^verbatim>\<open>rint\<close>: the nearest integer, a tie going to the even
  neighbour. The result is again a floating-point value; a negative value that rounds to
  zero gives the negative zero.
\<close>

definition rint :: "real \<Rightarrow> int" where
  "rint r =
     (let f = \<lfloor>r\<rfloor>; d = r - of_int f
      in if d < 1 / 2 then f else if 1 / 2 < d then f + 1 else if even f then f else f + 1)"

fun np_round :: "fval \<Rightarrow> fval" where
  "np_round NaN = NaN"
| "np_round PInf = PInf"
| "np_round NInf = NInf"
| "np_round NegZero = NegZero"
| "np_round (Fin r) = (if rint r = 0 \<and> r < 0 then NegZero else Fin (of_int (rint r)))"

text \<open>
  \<^verbatim>\<open>Series.astype(int)\<close> on a float column: pandas raises when a value is not finite,
  then NumPy converts each value as C does, truncating towards zero. A value outside the
  64-bit range has no defined result and raises nothing: the function \<open>ub\<close> stands for
  whatever the platform delivers there.
\<close>

definition in_int64 :: "int \<Rightarrow> bool" where
  "in_int64 k = (- (2 ^ 63) \<le> k \<and> k < 2 ^ 63)"

definition trunc :: "real \<Rightarrow> int" where
  "trunc r = (if 0 \<le> r then \<lfloor>r\<rfloor> else \<lceil>r\<rceil>)"

fun c_cast_int64 :: "(fval \<Rightarrow> int) \<Rightarrow> fval \<Rightarrow> int" where
  "c_cast_int64 ub NegZero = 0"
| "c_cast_int64 ub (Fin r) = (if in_int64 (trunc r) then trunc r else ub (Fin r))"
| "c_cast_int64 ub v = ub v"

definition astype_int :: "(fval \<Rightarrow> int) \<Rightarrow> fval list \<Rightarrow> error + int list" where
  "astype_int ub col =
     (if list_all isfinite col then Inr (map (c_cast_int64 ub) col)
      else Inl IntCastingNaNError)"

text \<open>
  The two assignments \<^verbatim>\<open>df[0] = df[0].round().astype(int)\<close> and
  \<^verbatim>\<open>df[1] = df[1].round().astype(int)\<close>, column by column, in this order.
\<close>

definition repair_frame :: "(fval \<Rightarrow> int) \<Rightarrow> point list \<Rightarrow> error + cpoint list" where
  "repair_frame ub df =
     (case astype_int ub (map np_round (map px df)) of
        Inl e \<Rightarrow> Inl e
      | Inr xs \<Rightarrow>
          (case astype_int ub (map np_round (map py df)) of
             Inl e \<Rightarrow> Inl e
           | Inr ys \<Rightarrow>
               Inr (map (\<lambda>(x, y, z). \<lparr>cx = x, cy = y, cz = z\<rparr>)
                      (zip xs (zip ys (map pz df))))))"

section \<open>Rasters, files and the file system\<close>

text \<open>
  A raster (\<^verbatim>\<open>xarray.DataArray\<close> with the \<^verbatim>\<open>rio\<close> accessor): the pixel array, row by
  row, the place of its upper left pixel on the grid of the output canvas (what the
  affine transform says, once the raster is resampled to the canvas resolution), the
  EPSG code of its reference system and its nodata tag, where they are set, and whether
  the raster holds its array in memory.
\<close>

record raster =
  data :: array2d
  row_off :: int
  col_off :: int
  crs :: "nat option"
  nodata :: "real option"
  in_memory :: bool

text \<open>
  A GeoTIFF file: the header tags and the rows of pixels. Compression
  (\<^verbatim>\<open>compress="lzw"\<close>), \<^verbatim>\<open>tiled=True\<close> and \<^verbatim>\<open>BIGTIFF="YES"\<close> change no pixel value and
  are not modelled. What stands at a path is a whole file, or the truncated rest of a
  write that was cut short, which cannot be read.
\<close>

record gtiff =
  g_dtype :: dtype
  g_crs :: "nat option"
  g_nodata :: "real option"
  g_rows :: array2d

datatype stored = Whole gtiff | Truncated

text \<open>
  The directories under \<^verbatim>\<open>base_dir\<close>: \<^verbatim>\<open>raw/\<close> holds the tiles as delivered,
  \<^verbatim>\<open>rounded/\<close> the repaired ones, \<^verbatim>\<open>merged/\<close> the rasters written. A tile file is held
  here by its rows; the text of a tile file, as \<^verbatim>\<open>read_csv\<close> parses it and \<^verbatim>\<open>to_csv\<close>
  prints it, is modelled in the section on the text of a tile file.
\<close>

record fs =
  raw_dir :: "string \<rightharpoonup> point list"
  rounded_dir :: "string \<rightharpoonup> cpoint list"
  merged_dir :: "string \<rightharpoonup> stored"

section \<open>Grid Repair: the loop over the files (notebook cell 4)\<close>

text \<open>\<^verbatim>\<open>pd.read_csv\<close> raises \<^verbatim>\<open>EmptyDataError\<close> on a file with no rows.\<close>

definition read_csv :: "fs \<Rightarrow> string \<Rightarrow> error + point list" where
  "read_csv s fname =
     (case raw_dir s fname of
        None \<Rightarrow> Inl FileNotFoundError
      | Some [] \<Rightarrow> Inl EmptyDataError
      | Some (p # ps) \<Rightarrow> Inr (p # ps))"

definition to_csv :: "fs \<Rightarrow> string \<Rightarrow> cpoint list \<Rightarrow> fs" where
  "to_csv s fname df = s\<lparr>rounded_dir := (rounded_dir s)(fname \<mapsto> df)\<rparr>"

text \<open>The body of the loop, for one file of \<^verbatim>\<open>flist\<close>.\<close>

definition repair_file :: "(fval \<Rightarrow> int) \<Rightarrow> fs \<Rightarrow> string \<Rightarrow> error + fs" where
  "repair_file ub s fname =
     (case read_csv s fname of
        Inl e \<Rightarrow> Inl e
      | Inr df \<Rightarrow>
          (case repair_frame ub df of
             Inl e \<Rightarrow> Inl e
           | Inr df' \<Rightarrow> Inr (to_csv s fname df')))"

text \<open>
  \<^verbatim>\<open>for fpath in flist: ...\<close> The body stands in no \<^verbatim>\<open>try\<close>: an exception leaves the
  loop. The result is the file system as the loop left it, and the exception if one was
  raised.
\<close>

fun repair_loop :: "(fval \<Rightarrow> int) \<Rightarrow> fs \<Rightarrow> string list \<Rightarrow> fs \<times> error option" where
  "repair_loop ub s [] = (s, None)"
| "repair_loop ub s (fname # rest) =
     (case repair_file ub s fname of
        Inl e \<Rightarrow> (s, Some e)
      | Inr s' \<Rightarrow> repair_loop ub s' rest)"




section \<open>Merging rasters onto the canvas\<close>

text \<open>
  \<^verbatim>\<open>rioxarray.merge.merge_arrays\<close> is a library function: its code is not part of the
  repository. The notebook calls it twice, in cell 5 with the default method and in cell
  6 with \<^verbatim>\<open>method="first"\<close>, which is the default. The definitions of this section
  model it from section 4.3 of the specification: the canvas starts with every pixel
  missing; the inputs are consulted in the order given; a pixel takes the value of the
  first input that has a non-missing value there, and a later input never overwrites a
  pixel that is already resolved; a pixel no input touches stays missing; the merge
  fails if the reference system of an input is unset. Resampling an input to the canvas
  grid is the library's work as well: an input is taken as it lies on the canvas grid.
\<close>

text \<open>
  Modelled from the spec: the footprint of an input, missing from the sources with
  \<^verbatim>\<open>merge_arrays\<close>. The pixel of raster \<open>t\<close> that lies on canvas pixel \<open>(r, c)\<close>; none
  outside the footprint of \<open>t\<close>.
\<close>

definition sample :: "raster \<Rightarrow> int \<Rightarrow> int \<Rightarrow> fval option" where
  "sample t r c =
     (let i = r - row_off t; j = c - col_off t
      in if 0 \<le> i \<and> i < int (length (data t))
         then (let row = data t ! nat i
               in if 0 \<le> j \<and> j < int (length row) then Some (row ! nat j) else None)
         else None)"

text \<open>
  Modelled from the spec: whether an input has a non-missing value at a canvas pixel
  (part of the absent \<^verbatim>\<open>merge_arrays\<close>).
\<close>

definition has_value :: "raster \<Rightarrow> int \<Rightarrow> int \<Rightarrow> bool" where
  "has_value t r c = (case sample t r c of None \<Rightarrow> False | Some v \<Rightarrow> \<not> isnan v)"

text \<open>
  Modelled from the spec: the value of an input at a canvas pixel, missing outside its
  footprint (part of the absent \<^verbatim>\<open>merge_arrays\<close>).
\<close>

definition value_at :: "raster \<Rightarrow> int \<Rightarrow> int \<Rightarrow> fval" where
  "value_at t r c = (case sample t r c of None \<Rightarrow> NaN | Some v \<Rightarrow> v)"

text \<open>
  Modelled from the spec: one step of the absent \<^verbatim>\<open>merge_arrays\<close>, painting one input
  onto the canvas. A pixel is written only where the canvas is still missing and the
  input has a value.
\<close>

definition paint_first :: "array2d \<Rightarrow> raster \<Rightarrow> array2d" where
  "paint_first dest t =
     map (\<lambda>r. map (\<lambda>c. if isnan (dest ! r ! c) \<and> has_value t (int r) (int c)
                          then value_at t (int r) (int c) else dest ! r ! c)
                  [0..<length (dest ! r)])
         [0..<length dest]"

text \<open>
  Modelled from the spec: the canvas before the first input is painted (part of the
  absent \<^verbatim>\<open>merge_arrays\<close>).
\<close>

definition blank :: "nat \<Rightarrow> nat \<Rightarrow> array2d" where
  "blank h w = replicate h (replicate w NaN)"

text \<open>
  Modelled from the spec: the raster the absent \<^verbatim>\<open>merge_arrays\<close> returns, the inputs
  painted in the order given; it carries the reference system asked for and holds its
  array in memory.
\<close>

definition mosaic :: "raster list \<Rightarrow> nat \<Rightarrow> nat \<Rightarrow> nat \<Rightarrow> raster" where
  "mosaic tiles h w dst_crs =
     \<lparr>data = foldl paint_first (blank h w) tiles, row_off = 0, col_off = 0,
      crs = Some dst_crs, nodata = None, in_memory = True\<rparr>"

text \<open>
  Modelled from the spec: \<^verbatim>\<open>merge_arrays(tiles, bounds=bbox, res=res, crs=...)\<close>, absent
  from the sources; \<open>h\<close> and \<open>w\<close> are the rows and columns of the canvas that the
  bounds and the resolution fix.
\<close>

definition merge_arrays :: "raster list \<Rightarrow> nat \<Rightarrow> nat \<Rightarrow> nat \<Rightarrow> error + raster" where
  "merge_arrays tiles h w dst_crs =
     (if list_ex (\<lambda>t. crs t = None) tiles then Inl MissingCRS
      else Inr (mosaic tiles h w dst_crs))"

text \<open>A raster that fills the canvas of \<open>h\<close> rows and \<open>w\<close> columns exactly.\<close>

definition aligned :: "raster \<Rightarrow> nat \<Rightarrow> nat \<Rightarrow> bool" where
  "aligned t h w =
     (row_off t = 0 \<and> col_off t = 0 \<and> length (data t) = h \<and>
      list_all (\<lambda>row. length row = w) (data t))"

text \<open>
  The result as the specification words it: the value of the first input, in the order
  given, that has a non-missing value at the pixel; missing when there is none. The merge
  is compared with it below.
\<close>

definition spec_first_value :: "raster list \<Rightarrow> nat \<Rightarrow> nat \<Rightarrow> fval" where
  "spec_first_value tiles r c =
     (case find (\<lambda>t. has_value t (int r) (int c)) tiles of
        None \<Rightarrow> NaN
      | Some t \<Rightarrow> value_at t (int r) (int c))"

section \<open>Opening and writing a raster\<close>

text \<open>
  \<^verbatim>\<open>rio.open_rasterio(path, mask_and_scale=True, cache=False)\<close>, applied to what the
  file holds, as a raster on the canvas grid. With \<^verbatim>\<open>cache=False\<close> the raster that is
  returned keeps no array in memory: every access to \<^verbatim>\<open>.data\<close> reads the file anew.
  All three calls of the notebook pass \<^verbatim>\<open>cache=False\<close>.
\<close>

definition open_rasterio :: "raster \<Rightarrow> raster" where
  "open_rasterio f = f\<lparr>in_memory := False\<rparr>"

text \<open>
  \<^verbatim>\<open>dem_ds.data[dem_ds.data < 0] = 0\<close> as a statement on a raster: \<^verbatim>\<open>dem_ds.data\<close> is
  evaluated to an array, and the values of that array which the comparison selects are
  overwritten. A raster that holds its array in memory hands out that array, so the
  raster changes. A raster opened with \<^verbatim>\<open>cache=False\<close> hands out a fresh array read
  from the file: the assignment changes that temporary array, which is dropped, and
  the raster is as before.
\<close>

definition assign_zero_below_zero :: "raster \<Rightarrow> raster" where
  "assign_zero_below_zero ds = (if in_memory ds then ds\<lparr>data := floor_clip (data ds)\<rparr> else ds)"

text \<open>
  Narrowing to 32 bits (\<^verbatim>\<open>astype("float32")\<close>): the magnitude is rounded to 24
  significant bits, a tie going to the even neighbour; below \<open>2\<^sup>-\<^sup>1\<^sup>2\<^sup>6\<close> the spacing
  stays \<open>2\<^sup>-\<^sup>1\<^sup>4\<^sup>9\<close>; a magnitude that rounds to \<open>2\<^sup>1\<^sup>2\<^sup>8\<close> or more becomes an infinity.
  \<open>binade m\<close> is the exponent \<open>e\<close> with \<open>2\<^sup>e \<le> m < 2\<^sup>e\<^sup>+\<^sup>1\<close>, for \<open>m > 0\<close>.
\<close>

definition binade :: "real \<Rightarrow> int" where
  "binade m =
     (if 1 \<le> m then int (floorlog 2 (nat \<lfloor>m\<rfloor>)) - 1
      else - int (floorlog 2 (nat \<lceil>1 / m\<rceil> - 1)))"

definition pow2 :: "int \<Rightarrow> real" where
  "pow2 e = (if 0 \<le> e then 2 ^ nat e else 1 / 2 ^ nat (- e))"

definition f32_magnitude :: "real \<Rightarrow> real" where
  "f32_magnitude m =
     (let q = pow2 (max (binade m) (- 126) - 23) in of_int (rint (m / q)) * q)"

fun astype_float32 :: "fval \<Rightarrow> fval" where
  "astype_float32 (Fin r) =
     (if r = 0 then Fin 0
      else let m = f32_magnitude \<bar>r\<bar>
           in if 2 ^ 128 \<le> m then (if r < 0 then NInf else PInf)
              else if m = 0 then (if r < 0 then NegZero else Fin 0)
              else Fin (if r < 0 then - m else m))"
| "astype_float32 v = v"

text \<open>
  \<^verbatim>\<open>astype(dtype)\<close>, for the two floating-point storage types. The arrays in memory are
  64 bits wide at most: storing as 64 bits changes nothing.
\<close>

fun astype :: "dtype \<Rightarrow> fval \<Rightarrow> fval" where
  "astype Float32 v = astype_float32 v"
| "astype Float64 v = v"

definition write_nodata :: "real \<Rightarrow> raster \<Rightarrow> raster" where
  "write_nodata v ds = ds\<lparr>nodata := Some v\<rparr>"

definition write_crs :: "nat \<Rightarrow> raster \<Rightarrow> raster" where
  "write_crs code ds = ds\<lparr>crs := Some code\<rparr>"

text \<open>
  \<^verbatim>\<open>ds.rio.to_raster(path, ..., dtype=dst_dtype)\<close>: the pixels are cast to the storage
  type and handed, with the tags, to the raster library, which writes the file at
  \<open>path\<close>. The code of the library is not part of the repository, and what it does to
  the file system, on a device that works or on one that fails, is the parameter
  \<open>writer\<close>: it takes the path and the file to write and gives the file system after
  the call and the exception, if it raised one. How the library encodes a missing
  pixel is not modelled: a not-a-number is handed over as it is.
\<close>

type_synonym writer = "string \<Rightarrow> gtiff \<Rightarrow> fs \<Rightarrow> fs \<times> error option"

definition to_raster :: "writer \<Rightarrow> fs \<Rightarrow> string \<Rightarrow> raster \<Rightarrow> dtype \<Rightarrow> fs \<times> error option" where
  "to_raster writer s path ds dt =
     writer path
       \<lparr>g_dtype = dt, g_crs = crs ds, g_nodata = nodata ds,
        g_rows = map (map (astype dt)) (data ds)\<rparr>
       s"

text \<open>
  Two behaviours of the library, for the examples below. On a device that works the
  whole file is at the path after the call. On a device that runs full while the file
  is written, a truncated file that cannot be read stays at the path, and nothing is
  raised.
\<close>

definition ideal_writer :: writer where
  "ideal_writer path file s = (s\<lparr>merged_dir := (merged_dir s)(path \<mapsto> Whole file)\<rparr>, None)"

definition full_device_writer :: writer where
  "full_device_writer path file s = (s\<lparr>merged_dir := (merged_dir s)(path \<mapsto> Truncated)\<rparr>, None)"

text \<open>
  What \<^verbatim>\<open>open_rasterio\<close> can deliver for an \<^verbatim>\<open>.xyz\<close> tile: the GDAL driver types the z
  column as integers of at most 32 bits when every z is a whole number, and as 32-bit
  floating point otherwise.
\<close>

definition is_float32 :: "fval \<Rightarrow> bool" where
  "is_float32 v = (astype_float32 v = v)"

fun is_whole32 :: "fval \<Rightarrow> bool" where
  "is_whole32 (Fin r) = (r = of_int \<lfloor>r\<rfloor> \<and> - (2 ^ 31) \<le> \<lfloor>r\<rfloor> \<and> \<lfloor>r\<rfloor> < 2 ^ 31)"
| "is_whole32 v = False"

definition xyz_deliverable :: "array2d \<Rightarrow> bool" where
  "xyz_deliverable a = (list_all (list_all is_float32) a \<or> list_all (list_all is_whole32) a)"

section \<open>The notebook cells 5 and 6\<close>

definition bathy_path :: string where
  "bathy_path = ''norway_40m_bathymetry.tif''"

definition merge_path :: string where
  "merge_path = ''norway_40m_topobathymetry.tif''"

text \<open>
  Cell 5: the repaired tiles are opened, get the reference system of the source data,
  are merged onto the canvas of \<open>h\<close> rows and \<open>w\<close> columns, the depths are made
  negative, and the mosaic is tagged and written. \<open>tiles\<close> is what the tile files hold,
  as rasters on the canvas grid.
\<close>

definition merge_cell ::
  "writer \<Rightarrow> fs \<Rightarrow> raster list \<Rightarrow> nat \<Rightarrow> nat \<Rightarrow> fs \<times> error option" where
  "merge_cell writer s tiles h w =
     (case merge_arrays (map (write_crs 25833) (map open_rasterio tiles)) h w epsg of
        Inl e \<Rightarrow> (s, Some e)
      | Inr bathy_ds \<Rightarrow>
          to_raster writer s bathy_path
            (write_crs epsg
               (write_nodata no_data_val (bathy_ds\<lparr>data := sign_inversion (data bathy_ds)\<rparr>)))
            dst_dtype)"

text \<open>
  Cell 6: the two rasters are opened, the statement that is to set the negative values
  of the topography to zero is run, the bathymetry is merged over the topography, and
  the result is tagged and written. \<open>bathy_file\<close> and \<open>dem_file\<close> are what the two
  files hold.
\<close>

definition combine_cell ::
  "writer \<Rightarrow> fs \<Rightarrow> raster \<Rightarrow> raster \<Rightarrow> nat \<Rightarrow> nat \<Rightarrow> fs \<times> error option" where
  "combine_cell writer s bathy_file dem_file h w =
     (let bathy_ds = open_rasterio bathy_file;
          dem_ds = assign_zero_below_zero (open_rasterio dem_file)
      in case merge_arrays [bathy_ds, dem_ds] h w epsg of
           Inl e \<Rightarrow> (s, Some e)
         | Inr ds \<Rightarrow>
             to_raster writer s merge_path (write_crs epsg (write_nodata no_data_val ds))
               dst_dtype)"

section \<open>The text of a tile file (notebook cell 4)\<close>

text \<open>
  The rows above are the table as \<^verbatim>\<open>read_csv\<close> delivers it. This section adds the text
  on both sides: how \<^verbatim>\<open>pd.read_csv(fpath, sep=" ", header=None)\<close> reads the bytes of a
  file into columns, and how \<^verbatim>\<open>df.to_csv(out_csv, sep=" ", header=False, index=False)\<close>
  prints them. Both are library code; the model follows pandas' C tokenizer and
  NumPy's printing of 64-bit values. A file whose fields are not numbers is outside
  the model (the result is \<open>None\<close>).
\<close>

text \<open>
  Arithmetic on 64-bit floating-point values: the exact result rounded to 53
  significant bits, a tie going to the even neighbour (below \<open>2\<^sup>-\<^sup>1\<^sup>0\<^sup>2\<^sup>2\<close> the spacing
  stays \<open>2\<^sup>-\<^sup>1\<^sup>0\<^sup>7\<^sup>4\<close>).
\<close>

definition f64_magnitude :: "real \<Rightarrow> real" where
  "f64_magnitude m =
     (let q = pow2 (max (binade m) (- 1022) - 52) in of_int (rint (m / q)) * q)"

definition fl64 :: "real \<Rightarrow> real" where
  "fl64 r = (if r = 0 then 0 else if r < 0 then - f64_magnitude (- r) else f64_magnitude r)"

definition pow10 :: "int \<Rightarrow> real" where
  "pow10 e = (if 0 \<le> e then 10 ^ nat e else 1 / 10 ^ nat (- e))"

definition newline :: char where
  "newline = CHR 0x0A"

definition digit_val :: "char \<Rightarrow> nat option" where
  "digit_val c =
     (let n = (of_char c :: nat) in if 48 \<le> n \<and> n \<le> 57 then Some (n - 48) else None)"

text \<open>
  \<^verbatim>\<open>precise_xstrtod\<close>, the converter \<^verbatim>\<open>read_csv\<close> uses for a floating-point field when
  \<^verbatim>\<open>float_precision\<close> is not given. The digits before and after the decimal point are
  accumulated in a 64-bit value, \<^verbatim>\<open>number = number * 10. + digit\<close>, for the first 17
  digit characters, leading zeros counted; further digits before the point raise the
  exponent, further digits after the point are skipped. The result is the number
  multiplied or divided by the power of ten, itself a 64-bit value.
\<close>

fun scan_int :: "real \<Rightarrow> nat \<Rightarrow> int \<Rightarrow> string \<Rightarrow> (real \<times> nat \<times> int) \<times> string" where
  "scan_int num nd ex [] = ((num, nd, ex), [])"
| "scan_int num nd ex (c # cs) =
     (case digit_val c of
        None \<Rightarrow> ((num, nd, ex), c # cs)
      | Some d \<Rightarrow>
          if nd < 17 then scan_int (fl64 (fl64 (num * 10) + real d)) (nd + 1) ex cs
          else scan_int num nd (ex + 1) cs)"

fun scan_frac :: "real \<Rightarrow> nat \<Rightarrow> int \<Rightarrow> string \<Rightarrow> (real \<times> nat \<times> int) \<times> string" where
  "scan_frac num nd ex [] = ((num, nd, ex), [])"
| "scan_frac num nd ex (c # cs) =
     (case digit_val c of
        None \<Rightarrow> ((num, nd, ex), c # cs)
      | Some d \<Rightarrow>
          if nd < 17 then scan_frac (fl64 (fl64 (num * 10) + real d)) (nd + 1) (ex - 1) cs
          else scan_frac num nd ex cs)"

fun scan_nat :: "nat \<Rightarrow> nat \<Rightarrow> string \<Rightarrow> (nat \<times> nat) \<times> string" where
  "scan_nat n k [] = ((n, k), [])"
| "scan_nat n k (c # cs) =
     (case digit_val c of
        None \<Rightarrow> ((n, k), c # cs)
      | Some d \<Rightarrow> scan_nat (n * 10 + d) (k + 1) cs)"

definition strip_sign :: "string \<Rightarrow> bool \<times> string" where
  "strip_sign s =
     (case s of
        [] \<Rightarrow> (False, [])
      | c # cs \<Rightarrow>
          if c = CHR ''-'' then (True, cs)
          else if c = CHR ''+'' then (False, cs)
          else (False, c # cs))"

definition scan_exponent :: "string \<Rightarrow> (int \<times> string) option" where
  "scan_exponent s =
     (case s of
        [] \<Rightarrow> Some (0, [])
      | c # cs \<Rightarrow>
          if c = CHR ''e'' \<or> c = CHR ''E'' then
            (let (neg, ds) = strip_sign cs; ((n, k), rest) = scan_nat 0 0 ds
             in if k = 0 then None else Some (if neg then - int n else int n, rest))
          else Some (0, c # cs))"

text \<open>The scaling by the power of ten; \<open>None\<close> stands for the overflow to infinity.\<close>

definition scale10 :: "real \<Rightarrow> int \<Rightarrow> real option" where
  "scale10 num ex =
     (if 308 < ex then None
      else if 0 < ex then Some (fl64 (num * fl64 (pow10 ex)))
      else if ex < - 308 then
        (if ex < - 616 then Some 0
         else Some (fl64 (fl64 (num / fl64 (pow10 (- 308 - ex))) / fl64 (pow10 308))))
      else Some (fl64 (num / fl64 (pow10 (- ex)))))"

definition precise_xstrtod :: "string \<Rightarrow> fval option" where
  "precise_xstrtod s =
     (let (neg, s1) = strip_sign s;
          ((num, nd, ex), s2) = scan_int 0 0 0 s1;
          ((num, nd, ex), s3) =
             (case s2 of
                [] \<Rightarrow> ((num, nd, ex), [])
              | c # cs \<Rightarrow>
                  if c = CHR ''.'' then scan_frac num nd ex cs else ((num, nd, ex), c # cs))
      in if nd = 0 then None
         else case scan_exponent s3 of
                None \<Rightarrow> None
              | Some (n, rest) \<Rightarrow>
                  if rest \<noteq> [] then None
                  else (case scale10 num (ex + n) of
                          None \<Rightarrow> Some (if neg then NInf else PInf)
                        | Some m \<Rightarrow>
                            if 2 ^ 1024 \<le> m then Some (if neg then NInf else PInf)
                            else if m = 0 then Some (if neg then NegZero else Fin 0)
                            else Some (Fin (if neg then - m else m))))"

text \<open>
  A floating-point field: the empty field and \<^verbatim>\<open>nan\<close> are missing values, \<^verbatim>\<open>inf\<close> and
  \<^verbatim>\<open>-inf\<close> are the infinities, everything else goes through the converter.
\<close>

definition parse_float :: "string \<Rightarrow> fval option" where
  "parse_float s =
     (if s = [] \<or> s = ''nan'' \<or> s = ''NaN'' then Some NaN
      else if s = ''inf'' then Some PInf
      else if s = ''-inf'' then Some NInf
      else precise_xstrtod s)"

text \<open>An integer field: a sign and digits, nothing else.\<close>

definition parse_int :: "string \<Rightarrow> int option" where
  "parse_int s =
     (let (neg, ds) = strip_sign s; ((n, k), rest) = scan_nat 0 0 ds
      in if k = 0 \<or> rest \<noteq> [] then None else Some (if neg then - int n else int n))"

text \<open>
  A column of the table is a column of 64-bit integers when every field of it is an
  integer that fits, and a column of 64-bit floating-point values otherwise.
\<close>

datatype column = IntCol "int list" | FloatCol "fval list"

definition parse_column :: "string list \<Rightarrow> column option" where
  "parse_column cells =
     (case those (map parse_int cells) of
        Some ks \<Rightarrow>
          if list_all in_int64 ks then Some (IntCol ks)
          else map_option FloatCol (those (map parse_float cells))
      | None \<Rightarrow> map_option FloatCol (those (map parse_float cells)))"

record frame =
  col0 :: column
  col1 :: column
  col2 :: column

fun split_on :: "char \<Rightarrow> string \<Rightarrow> string list" where
  "split_on sep [] = [[]]"
| "split_on sep (c # cs) =
     (if c = sep then [] # split_on sep cs
      else (case split_on sep cs of [] \<Rightarrow> [[c]] | f # fs \<Rightarrow> (c # f) # fs))"

text \<open>
  \<^verbatim>\<open>pd.read_csv(fpath, sep=" ", header=None)\<close> on the bytes of a file: blank lines are
  skipped, a line is split at every space, and a file without a line raises
  \<^verbatim>\<open>EmptyDataError\<close>. The model covers the files of three fields a line.
\<close>

definition read_csv_text :: "string \<Rightarrow> (error + frame) option" where
  "read_csv_text s =
     (let rows = map (split_on CHR '' '') (filter (\<lambda>l. l \<noteq> []) (split_on newline s))
      in if rows = [] then Some (Inl EmptyDataError)
         else if list_all (\<lambda>f. length f = 3) rows then
           (case (parse_column (map (\<lambda>f. f ! 0) rows),
                  parse_column (map (\<lambda>f. f ! 1) rows),
                  parse_column (map (\<lambda>f. f ! 2) rows)) of
              (Some a, Some b, Some c) \<Rightarrow> Some (Inr \<lparr>col0 = a, col1 = b, col2 = c\<rparr>)
            | _ \<Rightarrow> None)
         else None)"

text \<open>
  \<^verbatim>\<open>df[i].round().astype(int)\<close> on a column: a column of integers stays as it is, a
  column of floating-point values is rounded and converted as in the rows above.
\<close>

fun round_astype :: "(fval \<Rightarrow> int) \<Rightarrow> column \<Rightarrow> error + column" where
  "round_astype ub (IntCol ks) = Inr (IntCol ks)"
| "round_astype ub (FloatCol vs) =
     (case astype_int ub (map np_round vs) of Inl e \<Rightarrow> Inl e | Inr ks \<Rightarrow> Inr (IntCol ks))"

definition repair_table :: "(fval \<Rightarrow> int) \<Rightarrow> frame \<Rightarrow> error + frame" where
  "repair_table ub df =
     (case round_astype ub (col0 df) of
        Inl e \<Rightarrow> Inl e
      | Inr c0 \<Rightarrow>
          (case round_astype ub (col1 df) of
             Inl e \<Rightarrow> Inl e
           | Inr c1 \<Rightarrow> Inr (df\<lparr>col0 := c0, col1 := c1\<rparr>)))"

text \<open>The decimal digits of a number.\<close>

definition digit_char :: "nat \<Rightarrow> char" where
  "digit_char d = (if d < 10 then ''0123456789'' ! d else CHR ''?'')"

fun print_nat :: "nat \<Rightarrow> string" where
  "print_nat n =
     (if n < 10 then [digit_char n] else print_nat (n div 10) @ [digit_char (n mod 10)])"

declare print_nat.simps [simp del]

definition print_int :: "int \<Rightarrow> string" where
  "print_int k = (if k < 0 then CHR ''-'' # print_nat (nat (- k)) else print_nat (nat k))"

text \<open>
  The text of a 64-bit floating-point value, as NumPy and Python print it: the fewest
  significant digits that the correctly rounded conversion reads back to the same
  value, in plain notation from \<open>10\<^sup>-\<^sup>4\<close> up to \<open>10\<^sup>1\<^sup>6\<close> and in exponent notation
  otherwise.
  \<open>decade m\<close> is the exponent \<open>e\<close> with \<open>10\<^sup>e \<le> m < 10\<^sup>e\<^sup>+\<^sup>1\<close>, for \<open>m > 0\<close>.
\<close>

definition decade :: "real \<Rightarrow> int" where
  "decade m =
     (if 1 \<le> m then int (floorlog 10 (nat \<lfloor>m\<rfloor>)) - 1
      else - int (floorlog 10 (nat \<lceil>1 / m\<rceil> - 1)))"

definition sig_digits :: "real \<Rightarrow> nat \<Rightarrow> int" where
  "sig_digits m n = rint (m / pow10 (decade m - int n + 1))"

definition round_trips :: "real \<Rightarrow> nat \<Rightarrow> bool" where
  "round_trips m n = (fl64 (of_int (sig_digits m n) * pow10 (decade m - int n + 1)) = m)"

definition shortest :: "real \<Rightarrow> nat" where
  "shortest m =
     (case find (round_trips m) [1, 2, 3, 4, 5, 6, 7, 8, 9, 10, 11, 12, 13, 14, 15, 16] of
        None \<Rightarrow> 17
      | Some n \<Rightarrow> n)"

definition exponent_text :: "int \<Rightarrow> string" where
  "exponent_text e =
     (if 0 \<le> e then CHR ''+'' else CHR ''-'') #
     (if \<bar>e\<bar> < 10 then CHR ''0'' # print_nat (nat \<bar>e\<bar>) else print_nat (nat \<bar>e\<bar>))"

definition repr_pos :: "real \<Rightarrow> string" where
  "repr_pos m =
     (let n = shortest m; k = sig_digits m n;
          (ds, e) = (if k = 10 ^ n then (''1'', decade m + 1)
                     else (print_nat (nat k), decade m));
          decpt = e + 1
      in if - 4 < decpt \<and> decpt \<le> 16 then
           (if decpt \<le> 0 then ''0.'' @ replicate (nat (- decpt)) CHR ''0'' @ ds
            else if int (length ds) \<le> decpt
              then ds @ replicate (nat decpt - length ds) CHR ''0'' @ ''.0''
            else take (nat decpt) ds @ ''.'' @ drop (nat decpt) ds)
         else (case ds of
                 [] \<Rightarrow> []
               | c # cs \<Rightarrow>
                   c # (if cs = [] then [] else CHR ''.'' # cs) @ CHR ''e'' # exponent_text e))"

text \<open>A missing value is printed as the empty field (\<^verbatim>\<open>na_rep\<close> is not given).\<close>

fun repr_float :: "fval \<Rightarrow> string" where
  "repr_float NaN = []"
| "repr_float PInf = ''inf''"
| "repr_float NInf = ''-inf''"
| "repr_float NegZero = ''-0.0''"
| "repr_float (Fin r) =
     (if r = 0 then ''0.0'' else if r < 0 then CHR ''-'' # repr_pos (- r) else repr_pos r)"

fun column_text :: "column \<Rightarrow> string list" where
  "column_text (IntCol ks) = map print_int ks"
| "column_text (FloatCol vs) = map repr_float vs"

text \<open>
  \<^verbatim>\<open>df.to_csv(out_csv, sep=" ", header=False, index=False)\<close>: the bytes written, a line
  for every row, the fields separated by one space.
\<close>

definition to_csv_text :: "frame \<Rightarrow> string" where
  "to_csv_text df =
     concat (map (\<lambda>(a, b, c). a @ '' '' @ b @ '' '' @ c @ [newline])
               (zip (column_text (col0 df)) (zip (column_text (col1 df)) (column_text (col2 df)))))"

text \<open>
  The body of the loop on the bytes of one file: the bytes read, the two columns
  rounded, the bytes written.
\<close>

definition repair_text :: "(fval \<Rightarrow> int) \<Rightarrow> string \<Rightarrow> (error + string) option" where
  "repair_text ub bytes =
     (case read_csv_text bytes of
        None \<Rightarrow> None
      | Some (Inl e) \<Rightarrow> Some (Inl e)
      | Some (Inr df) \<Rightarrow>
          (case repair_table ub df of
             Inl e \<Rightarrow> Some (Inl e)
           | Inr df' \<Rightarrow> Some (Inr (to_csv_text df'))))"

section \<open>Example inputs\<close>

text \<open>The result x86-64 delivers for a conversion out of range: the smallest integer.\<close>

definition indefinite_cast :: "fval \<Rightarrow> int" where
  "indefinite_cast v = - (2 ^ 63)"

definition tile_ok :: "point list" where
  "tile_ok = [\<lparr>px = Fin 10.4, py = Fin 20.6, pz = Fin 7\<rparr>]"

definition tile_empty :: "point list" where
  "tile_empty = []"

definition fs_three :: fs where
  "fs_three =
     \<lparr>raw_dir = [''a.xyz'' \<mapsto> tile_ok, ''b.xyz'' \<mapsto> tile_empty, ''c.xyz'' \<mapsto> tile_ok],
      rounded_dir = Map.empty, merged_dir = Map.empty\<rparr>"

text \<open>
  A bathymetry raster and a topography raster on a canvas of two rows and one column, as
  they come out of \<^verbatim>\<open>open_rasterio\<close>.
\<close>

definition bathy_ex :: raster where
  "bathy_ex = \<lparr>data = [[Fin (- 5)], [NaN]], row_off = 0, col_off = 0,
               crs = Some 25833, nodata = Some (- 9999), in_memory = False\<rparr>"

definition dem_ex :: raster where
  "dem_ex = \<lparr>data = [[Fin 3], [Fin (- 2)]], row_off = 0, col_off = 0,
             crs = Some 25833, nodata = Some (- 9999), in_memory = False\<rparr>"

text \<open>A topography file of two rows and two columns with two negative values.\<close>

definition dem_neg :: raster where
  "dem_neg = \<lparr>data = [[Fin 3, Fin (- 2)], [NaN, Fin (- 7)]], row_off = 0, col_off = 0,
              crs = Some 25833, nodata = Some (- 9999), in_memory = False\<rparr>"

text \<open>
  Two tiles of one row and two columns on a canvas of one row and four columns: the
  first covers columns 0 and 1 and misses a value at column 0, the second covers columns
  1 and 2. An opened tile carries no reference system.
\<close>

definition tile_a :: raster where
  "tile_a = \<lparr>data = [[NaN, Fin 1]], row_off = 0, col_off = 0, crs = None, nodata = None,
             in_memory = False\<rparr>"

definition tile_b :: raster where
  "tile_b = \<lparr>data = [[Fin 2, Fin 3]], row_off = 0, col_off = 1, crs = None, nodata = None,
             in_memory = False\<rparr>"

text \<open>
  A tile of two rows and two columns whose depths are whole numbers, one of them
  \<open>2\<^sup>2\<^sup>4 + 1\<close>: a whole number of 32 bits that no 32-bit floating-point value equals.
\<close>

definition tile_whole :: raster where
  "tile_whole = \<lparr>data = [[Fin 16777217, Fin 1], [Fin 2, Fin 3]], row_off = 0, col_off = 0,
                 crs = None, nodata = None, in_memory = False\<rparr>"

section \<open>Properties of the value transforms\<close>

lemma mul_neg1_twice: "mul_neg1 (mul_neg1 v) = v"
  by (cases v) auto

text \<open>
  Claim C3. Sign inversion is self-inverse: for every array, multiplying every value by
  \<open>-1\<close> twice gives back the array, value for value (zeros keep their sign, infinities
  and not-a-number are kept).
\<close>

theorem sign_inversion_self_inverse: "sign_inversion (sign_inversion a) = a"
  unfolding sign_inversion_def
  by (induction a) (simp_all add: comp_def mul_neg1_twice)

lemma clip_twice:
  "(\<lambda>v. if less_zero v then Fin 0 else v) \<circ> (\<lambda>v. if less_zero v then Fin 0 else v)
   = (\<lambda>v. if less_zero v then Fin 0 else v)"
  by (rule ext) simp

text \<open>
  The assignment \<^verbatim>\<open>a[a < 0] = 0\<close>, on the array it is applied to, is idempotent.
\<close>

lemma floor_clip_idempotent: "floor_clip (floor_clip a) = floor_clip a"
  unfolding floor_clip_def by (simp add: clip_twice)

text \<open>
  Claim C4. Floor clipping is to force every value below zero in the topography to
  zero. The statement of cell 6 does not: the topography is opened with
  \<^verbatim>\<open>cache=False\<close>, the assignment changes a temporary array, and the raster keeps its
  negative values. On the file with the pixels \<open>3, -2\<close> and \<open>missing, -7\<close> the raster
  after the statement still holds \<open>-2\<close> and \<open>-7\<close>, where the clipped array holds
  zeros.
\<close>

theorem floor_clip_not_applied:
  "data (assign_zero_below_zero (open_rasterio dem_neg)) = [[Fin 3, Fin (- 2)], [NaN, Fin (- 7)]] \<and>
   floor_clip (data (open_rasterio dem_neg)) = [[Fin 3, Fin 0], [NaN, Fin 0]]"
  by (simp add: assign_zero_below_zero_def open_rasterio_def dem_neg_def floor_clip_def)

text \<open>
  Claim C10. Both value transforms keep a missing pixel missing: where the array holds
  not-a-number, it still does after the sign inversion and after the floor clipping.
\<close>

theorem transforms_preserve_missing:
  "r < length a \<Longrightarrow> c < length (a ! r) \<Longrightarrow> isnan (a ! r ! c) \<Longrightarrow>
   isnan (sign_inversion a ! r ! c) \<and> isnan (floor_clip a ! r ! c)"
  by (cases "a ! r ! c") (simp_all add: sign_inversion_def floor_clip_def)

text \<open>The claim at a row that holds a missing pixel beside a negative one.\<close>

theorem transforms_preserve_missing_witness:
  "(0::nat) < length [[NaN, Fin (- 2)]] \<and> (0::nat) < length ([[NaN, Fin (- 2)]] ! 0) \<and>
   isnan ([[NaN, Fin (- 2)]] ! 0 ! 0) \<and>
   isnan (sign_inversion [[NaN, Fin (- 2)]] ! 0 ! 0) \<and>
   isnan (floor_clip [[NaN, Fin (- 2)]] ! 0 ! 0)"
  using transforms_preserve_missing [of 0 "[[NaN, Fin (- 2)]]" 0] by simp

section \<open>Properties of Grid Repair\<close>




lemma rint_104: "rint 10.4 = 10" "rint (52 / 5) = 10"
  by (simp_all add: rint_def Let_def)

lemma rint_206: "rint 20.6 = 21" "rint (103 / 5) = 21"
  by (simp_all add: rint_def Let_def)








lemma repair_loop_append:
  "repair_loop ub s pre = (s1, None) \<Longrightarrow>
   repair_loop ub s (pre @ rest) = repair_loop ub s1 rest"
  by (induction pre arbitrary: s) (auto split: sum.splits)

lemma tile_ok_frame: "repair_frame ub tile_ok = Inr [\<lparr>cx = 10, cy = 21, cz = Fin 7\<rparr>]"
  by (simp add: tile_ok_def repair_frame_def astype_int_def rint_104 rint_206 in_int64_def
      trunc_def)

lemma read_csv_to_csv: "read_csv (to_csv s f d) g = read_csv s g"
  by (simp add: read_csv_def to_csv_def)

lemma read_fs_three:
  "read_csv fs_three ''a.xyz'' = Inr tile_ok"
  "read_csv fs_three ''b.xyz'' = Inl EmptyDataError"
  "read_csv fs_three ''c.xyz'' = Inr tile_ok"
  by (simp_all add: read_csv_def fs_three_def tile_ok_def tile_empty_def)

text \<open>
  Claim C7 says that a file whose repair raises does not keep the remaining files from
  being repaired. It fails: \<^verbatim>\<open>b.xyz\<close> is an empty file, its repair raises, and
  \<^verbatim>\<open>c.xyz\<close>, whose repair alone succeeds, is never written; the loop over the two
  files ends with the exception.
\<close>

theorem repair_loop_continues_counterexample:
  "repair_file indefinite_cast fs_three ''b.xyz'' = Inl EmptyDataError \<and>
   repair_file indefinite_cast fs_three ''c.xyz''
     = Inr (to_csv fs_three ''c.xyz'' [\<lparr>cx = 10, cy = 21, cz = Fin 7\<rparr>]) \<and>
   snd (repair_loop indefinite_cast fs_three [''b.xyz'', ''c.xyz'']) = Some EmptyDataError \<and>
   rounded_dir (fst (repair_loop indefinite_cast fs_three [''b.xyz'', ''c.xyz''])) ''c.xyz'' = None"
  by (simp add: repair_file_def read_fs_three tile_ok_frame)
     (simp add: fs_three_def)

text \<open>
  Claim C7, amended. The files are repaired in the order of the list. If the repair of
  one file raises, the loop ends with that exception: the files before it are repaired
  and written, the failing file and the files after it are not.
\<close>

theorem repair_loop_stops_at_first_error:
  "repair_loop ub s pre = (s1, None) \<Longrightarrow> repair_file ub s1 fname = Inl e \<Longrightarrow>
   repair_loop ub s (pre @ fname # post) = (s1, Some e)"
  by (simp add: repair_loop_append)

text \<open>The amended claim at the list \<^verbatim>\<open>a.xyz\<close>, \<^verbatim>\<open>b.xyz\<close>, \<^verbatim>\<open>c.xyz\<close>.\<close>

theorem repair_loop_stops_at_first_error_witness:
  "repair_loop indefinite_cast fs_three [''a.xyz'']
     = (to_csv fs_three ''a.xyz'' [\<lparr>cx = 10, cy = 21, cz = Fin 7\<rparr>], None) \<and>
   repair_file indefinite_cast
       (to_csv fs_three ''a.xyz'' [\<lparr>cx = 10, cy = 21, cz = Fin 7\<rparr>]) ''b.xyz''
     = Inl EmptyDataError \<and>
   repair_loop indefinite_cast fs_three [''a.xyz'', ''b.xyz'', ''c.xyz'']
     = (to_csv fs_three ''a.xyz'' [\<lparr>cx = 10, cy = 21, cz = Fin 7\<rparr>],
        Some EmptyDataError)"
proof -
  let ?s1 = "to_csv fs_three ''a.xyz'' [\<lparr>cx = 10, cy = 21, cz = Fin 7\<rparr>]"
  have a: "repair_loop indefinite_cast fs_three [''a.xyz''] = (?s1, None)"
    by (simp add: repair_file_def read_fs_three tile_ok_frame)
  have b: "repair_file indefinite_cast ?s1 ''b.xyz'' = Inl EmptyDataError"
    by (simp add: repair_file_def read_csv_to_csv read_fs_three)
  from repair_loop_stops_at_first_error [OF a b, of "[''c.xyz'']"] a b
  show ?thesis by simp
qed

section \<open>Properties of the text of a tile file\<close>

lemmas fl_eval = fl64_def f64_magnitude_def binade_def pow2_def pow10_def rint_def Let_def
  compute_floorlog

lemmas scan_eval = precise_xstrtod_def strip_sign_def scan_exponent_def scale10_def digit_val_def

text \<open>
  The fields of the example as they are read. The value of \<^verbatim>\<open>1.2345678901234e-04\<close> is
  the 64-bit value nearest to it; of \<^verbatim>\<open>0.00012345678901234\<close> only the first 17 digit
  characters are read, the four leading zeros among them, so the last digit is lost.
\<close>

lemma parse_float_fields:
  "parse_float ''10.4'' = Some (Fin (5854679515581645 / 562949953421312))"
  "parse_float ''20.6'' = Some (Fin (2899192260119757 / 140737488355328))"
  "parse_float ''1.2345678901234e-04'' = Some (Fin (4554751582145187 / 36893488147419103232))"
  "parse_float ''0.00012345678901234'' = Some (Fin (4554751582143711 / 36893488147419103232))"
  by (simp_all add: parse_float_def scan_eval fl_eval)

lemma parse_int_fields:
  "parse_int ''10'' = Some 10" "parse_int ''21'' = Some 21"
  "parse_int ''10.4'' = None" "parse_int ''20.6'' = None"
  "parse_int ''1.2345678901234e-04'' = None" "parse_int ''0.00012345678901234'' = None"
  by (simp_all add: parse_int_def strip_sign_def digit_val_def)

lemma rint_fields:
  "rint (5854679515581645 / 562949953421312) = 10"
  "rint (2899192260119757 / 140737488355328) = 21"
  by (simp_all add: rint_def Let_def)

lemma round_columns:
  "round_astype ub (FloatCol [Fin (5854679515581645 / 562949953421312)]) = Inr (IntCol [10])"
  "round_astype ub (FloatCol [Fin (2899192260119757 / 140737488355328)]) = Inr (IntCol [21])"
  by (simp_all add: astype_int_def rint_fields in_int64_def trunc_def)

lemma decade_z:
  "decade (4554751582145187 / 36893488147419103232) = - 4"
  "decade (4554751582143711 / 36893488147419103232) = - 4"
  by (simp_all add: decade_def compute_floorlog)

lemma shortest_z1: "shortest (4554751582145187 / 36893488147419103232) = 14"
  by (simp add: shortest_def round_trips_def sig_digits_def decade_z fl_eval)

lemma shortest_z2: "shortest (4554751582143711 / 36893488147419103232) = 13"
  by (simp add: shortest_def round_trips_def sig_digits_def decade_z fl_eval)

lemma print_nat_digits:
  "print_nat 10 = ''10''" "print_nat 21 = ''21''"
  "print_nat 12345678901234 = ''12345678901234''"
  "print_nat 1234567890123 = ''1234567890123''"
  by (simp_all add: print_nat.simps digit_char_def)

lemma print_int_fields: "print_int 10 = ''10''" "print_int 21 = ''21''"
  by (simp_all add: print_int_def print_nat_digits)

lemma repr_z1:
  "repr_float (Fin (4554751582145187 / 36893488147419103232)) = ''0.00012345678901234''"
  by (simp add: repr_pos_def shortest_z1 sig_digits_def decade_z print_nat_digits
      pow10_def rint_def Let_def numeral_3_eq_3)

lemma repr_z2:
  "repr_float (Fin (4554751582143711 / 36893488147419103232)) = ''0.0001234567890123''"
  by (simp add: repr_pos_def shortest_z2 sig_digits_def decade_z print_nat_digits
      pow10_def rint_def Let_def numeral_3_eq_3)

text \<open>
  Claim C5. Grid Repair, run on a file that it has written, is to write the same bytes
  again. It does not for every file: the raw tile with the line
  \<^verbatim>\<open>10.4 20.6 1.2345678901234e-04\<close> is repaired to the line
  \<^verbatim>\<open>10 21 0.00012345678901234\<close>, and that file, repaired again, gives the line
  \<^verbatim>\<open>10 21 0.0001234567890123\<close>: x and y are kept, the last digit of z is lost when the
  file is read.
\<close>

theorem repair_text_not_idempotent:
  "repair_text ub (''10.4 20.6 1.2345678901234e-04'' @ [newline])
     = Some (Inr (''10 21 0.00012345678901234'' @ [newline])) \<and>
   repair_text ub (''10 21 0.00012345678901234'' @ [newline])
     = Some (Inr (''10 21 0.0001234567890123'' @ [newline]))"
  by (simp add: repair_text_def read_csv_text_def newline_def parse_column_def
      parse_int_fields parse_float_fields repair_table_def round_columns
      in_int64_def to_csv_text_def print_int_fields repr_z1 repr_z2
      del: repr_float.simps round_astype.simps(2))

section \<open>Properties of the merge\<close>

lemma isnan_iff: "isnan v \<longleftrightarrow> v = NaN"
  by (cases v) simp_all

lemma length_paint_first: "length (paint_first d t) = length d"
  by (simp add: paint_first_def)

lemma length_row_paint_first:
  "r < length d \<Longrightarrow> length (paint_first d t ! r) = length (d ! r)"
  by (simp add: paint_first_def)

lemma paint_first_nth:
  "r < length d \<Longrightarrow> c < length (d ! r) \<Longrightarrow>
   paint_first d t ! r ! c =
     (if isnan (d ! r ! c) \<and> has_value t (int r) (int c)
      then value_at t (int r) (int c) else d ! r ! c)"
  by (simp add: paint_first_def)

lemma has_value_not_nan: "has_value t r c \<Longrightarrow> \<not> isnan (value_at t r c)"
  by (auto simp: has_value_def value_at_def split: option.splits)

text \<open>
  The invariant of the painting loop: a pixel that is resolved keeps its value; a pixel
  that is missing gets the value of the first of the remaining inputs that has one.
\<close>

lemma foldl_paint_first_nth:
  "r < length d \<Longrightarrow> c < length (d ! r) \<Longrightarrow>
   foldl paint_first d tiles ! r ! c =
     (if isnan (d ! r ! c) then spec_first_value tiles r c else d ! r ! c)"
proof (induction tiles arbitrary: d)
  case Nil
  then show ?case by (simp add: spec_first_value_def isnan_iff)
next
  case (Cons t tiles)
  have r: "r < length (paint_first d t)" and c: "c < length (paint_first d t ! r)"
    using Cons.prems by (simp_all add: length_paint_first length_row_paint_first)
  show ?case
    using Cons.IH [OF r c] Cons.prems
    by (auto simp: paint_first_nth spec_first_value_def has_value_not_nan)
qed

lemma mosaic_nth:
  "r < h \<Longrightarrow> c < w \<Longrightarrow> data (mosaic tiles h w k) ! r ! c = spec_first_value tiles r c"
  using foldl_paint_first_nth [of r "blank h w" c tiles]
  by (simp add: mosaic_def blank_def)

lemma sample_write_crs: "sample (write_crs k t) r c = sample t r c"
  by (simp add: sample_def write_crs_def Let_def)

lemma has_value_write_crs: "has_value (write_crs k t) r c = has_value t r c"
  by (simp add: has_value_def sample_write_crs)

lemma value_at_write_crs: "value_at (write_crs k t) r c = value_at t r c"
  by (simp add: value_at_def sample_write_crs)

lemma spec_first_value_write_crs: "spec_first_value (map (write_crs k) tiles) r c = spec_first_value tiles r c"
  by (induction tiles) (simp_all add: spec_first_value_def has_value_write_crs value_at_write_crs)

lemma spec_first_value_index:
  "i < length tiles \<Longrightarrow> has_value (tiles ! i) (int r) (int c) \<Longrightarrow>
   \<forall>j<i. \<not> has_value (tiles ! j) (int r) (int c) \<Longrightarrow>
   spec_first_value tiles r c = value_at (tiles ! i) (int r) (int c)"
proof -
  assume a: "i < length tiles" "has_value (tiles ! i) (int r) (int c)"
    "\<forall>j<i. \<not> has_value (tiles ! j) (int r) (int c)"
  then have "find (\<lambda>t. has_value t (int r) (int c)) tiles = Some (tiles ! i)"
    unfolding find_Some_iff by blast
  then show ?thesis by (simp add: spec_first_value_def)
qed

lemma spec_first_value_none:
  "\<forall>t \<in> set tiles. \<not> has_value t (int r) (int c) \<Longrightarrow> spec_first_value tiles r c = NaN"
  by (induction tiles) (auto simp: spec_first_value_def)

lemma merge_arrays_stamped:
  "merge_arrays (map (write_crs k) srcs) h w e = Inr (mosaic (map (write_crs k) srcs) h w e)"
  by (simp add: merge_arrays_def list_ex_iff write_crs_def)

text \<open>
  Claim C2. For every list of tiles and every pixel of the canvas, the merge of cell 5
  succeeds and the pixel holds the value of the first tile, in the order of the list,
  that has a non-missing value there (no tile before it has one); a pixel where no tile
  has a value, and so a pixel no tile covers, is missing.
\<close>

theorem merge_first_wins:
  "r < h \<Longrightarrow> c < w \<Longrightarrow>
   merge_arrays (map (write_crs 25833) srcs) h w epsg
     = Inr (mosaic (map (write_crs 25833) srcs) h w epsg) \<and>
   (\<forall>i<length srcs.
      has_value (srcs ! i) (int r) (int c) \<and> (\<forall>j<i. \<not> has_value (srcs ! j) (int r) (int c)) \<longrightarrow>
      data (mosaic (map (write_crs 25833) srcs) h w epsg) ! r ! c
        = value_at (srcs ! i) (int r) (int c)) \<and>
   ((\<forall>t \<in> set srcs. \<not> has_value t (int r) (int c)) \<longrightarrow>
      data (mosaic (map (write_crs 25833) srcs) h w epsg) ! r ! c = NaN) \<and>
   ((\<forall>t \<in> set srcs. sample t (int r) (int c) = None) \<longrightarrow>
      data (mosaic (map (write_crs 25833) srcs) h w epsg) ! r ! c = NaN)"
proof -
  assume rc: "r < h" "c < w"
  have px: "data (mosaic (map (write_crs 25833) srcs) h w epsg) ! r ! c = spec_first_value srcs r c"
    using rc by (simp add: mosaic_nth spec_first_value_write_crs)
  have unc: "(\<forall>t \<in> set srcs. sample t (int r) (int c) = None)
      \<Longrightarrow> (\<forall>t \<in> set srcs. \<not> has_value t (int r) (int c))"
    by (simp add: has_value_def)
  show ?thesis
    unfolding px
    by (intro conjI allI impI)
       (simp_all add: merge_arrays_stamped spec_first_value_index spec_first_value_none unc)
qed

text \<open>
  The claim at column 1 of the canvas of the two tiles, where both tiles have a value:
  the value of the first one is taken.
\<close>

theorem merge_first_wins_witness:
  "(0::nat) < 1 \<and> (1::nat) < 4 \<and>
   has_value tile_a 0 1 \<and> has_value tile_b 0 1 \<and>
   data (mosaic (map (write_crs 25833) [tile_a, tile_b]) 1 4 epsg) ! 0 ! 1 = Fin 1"
proof -
  have a: "has_value tile_a 0 1" and b: "has_value tile_b 0 1"
    and v: "value_at tile_a 0 1 = Fin 1"
    by (simp_all add: has_value_def value_at_def sample_def tile_a_def tile_b_def)
  from merge_first_wins [of 0 1 1 4 "[tile_a, tile_b]"]
  have "\<forall>i<length [tile_a, tile_b].
      has_value ([tile_a, tile_b] ! i) (int 0) (int 1) \<and>
      (\<forall>j<i. \<not> has_value ([tile_a, tile_b] ! j) (int 0) (int 1)) \<longrightarrow>
      data (mosaic (map (write_crs 25833) [tile_a, tile_b]) 1 4 epsg) ! 0 ! 1
        = value_at ([tile_a, tile_b] ! i) (int 0) (int 1)"
    by simp
  then have "data (mosaic (map (write_crs 25833) [tile_a, tile_b]) 1 4 epsg) ! 0 ! 1
        = value_at tile_a 0 1"
    using a by force
  with a b v show ?thesis by simp
qed

lemma aligned_sample:
  "aligned t h w \<Longrightarrow> r < h \<Longrightarrow> c < w \<Longrightarrow> sample t (int r) (int c) = Some (data t ! r ! c)"
  by (simp add: aligned_def sample_def list_all_length)

text \<open>
  Claim C1. For every pair of rasters that fill the canvas and carry a reference system,
  and every pixel of the canvas, the merge of primary over secondary succeeds and the
  pixel holds the value of the primary if that is not missing, else the value of the
  secondary if that is not missing, else it is missing; a bathymetry value of \<open>-5\<close>
  wins over a topography value of \<open>3\<close>.
\<close>

theorem priority_compositor:
  "aligned primary h w \<Longrightarrow> aligned secondary h w \<Longrightarrow>
   crs primary \<noteq> None \<Longrightarrow> crs secondary \<noteq> None \<Longrightarrow> r < h \<Longrightarrow> c < w \<Longrightarrow>
   merge_arrays [primary, secondary] h w epsg = Inr (mosaic [primary, secondary] h w epsg) \<and>
   data (mosaic [primary, secondary] h w epsg) ! r ! c =
     (if \<not> isnan (data primary ! r ! c) then data primary ! r ! c
      else if \<not> isnan (data secondary ! r ! c) then data secondary ! r ! c
      else NaN) \<and>
   (data primary ! r ! c = Fin (- 5) \<and> data secondary ! r ! c = Fin 3 \<longrightarrow>
      data (mosaic [primary, secondary] h w epsg) ! r ! c = Fin (- 5))"
proof -
  assume a: "aligned primary h w" "aligned secondary h w"
    and k: "crs primary \<noteq> None" "crs secondary \<noteq> None" and rc: "r < h" "c < w"
  have p: "sample primary (int r) (int c) = Some (data primary ! r ! c)"
    and s: "sample secondary (int r) (int c) = Some (data secondary ! r ! c)"
    using a rc by (simp_all add: aligned_sample)
  have m: "merge_arrays [primary, secondary] h w epsg = Inr (mosaic [primary, secondary] h w epsg)"
    using k by (simp add: merge_arrays_def)
  have v: "data (mosaic [primary, secondary] h w epsg) ! r ! c =
     (if \<not> isnan (data primary ! r ! c) then data primary ! r ! c
      else if \<not> isnan (data secondary ! r ! c) then data secondary ! r ! c
      else NaN)"
    using rc by (simp add: mosaic_nth spec_first_value_def has_value_def value_at_def p s)
  from m v show ?thesis by simp
qed

text \<open>
  The claim at the two example rasters: at the upper pixel the bathymetry value \<open>-5\<close>
  wins over the topography value \<open>3\<close>, at the lower pixel the bathymetry is missing and
  the topography value is taken.
\<close>

theorem priority_compositor_witness:
  "aligned bathy_ex 2 1 \<and> aligned dem_ex 2 1 \<and> crs bathy_ex \<noteq> None \<and> crs dem_ex \<noteq> None \<and>
   data bathy_ex ! 0 ! 0 = Fin (- 5) \<and> data dem_ex ! 0 ! 0 = Fin 3 \<and>
   data (mosaic [bathy_ex, dem_ex] 2 1 epsg) ! 0 ! 0 = Fin (- 5) \<and>
   data (mosaic [bathy_ex, dem_ex] 2 1 epsg) ! 1 ! 0 = Fin (- 2)"
proof -
  have h: "aligned bathy_ex 2 1" "aligned dem_ex 2 1" "crs bathy_ex \<noteq> None" "crs dem_ex \<noteq> None"
    by (simp_all add: aligned_def bathy_ex_def dem_ex_def)
  have d: "data bathy_ex ! 0 ! 0 = Fin (- 5)" "data dem_ex ! 0 ! 0 = Fin 3"
    "data bathy_ex ! 1 ! 0 = NaN" "data dem_ex ! 1 ! 0 = Fin (- 2)"
    by (simp_all add: bathy_ex_def dem_ex_def)
  from priority_compositor [OF h, of 0 0] priority_compositor [OF h, of 1 0] h d
  show ?thesis by simp
qed

section \<open>Properties of the raster writer\<close>

lemma astype_dst: "astype dst_dtype = astype_float32"
  by (rule ext) (simp add: dst_dtype_def)

lemmas f32_eval = f32_magnitude_def binade_def pow2_def rint_def Let_def compute_floorlog

lemma f32_small:
  "astype_float32 (Fin (- 1)) = Fin (- 1)"
  "astype_float32 (Fin (- 2)) = Fin (- 2)"
  "astype_float32 (Fin (- 3)) = Fin (- 3)"
  "astype_float32 (Fin (- 5)) = Fin (- 5)"
  by (simp_all add: f32_eval)

lemma f32_whole: "astype_float32 (Fin (- 16777217)) = Fin (- 16777216)"
  by (simp add: f32_eval)

text \<open>The write of both cells: the tags and the cast of the notebook's configuration.\<close>

lemma to_raster_stamped:
  "to_raster writer s path (write_crs epsg (write_nodata no_data_val ds)) dst_dtype =
     writer path
       \<lparr>g_dtype = Float32, g_crs = Some 25833, g_nodata = Some (- 9999),
        g_rows = map (map astype_float32) (data ds)\<rparr> s"
  by (simp add: to_raster_def write_crs_def write_nodata_def epsg_def no_data_val_def
      astype_dst) (simp add: dst_dtype_def)

lemma assign_opened: "assign_zero_below_zero (open_rasterio f) = open_rasterio f"
  by (simp add: assign_zero_below_zero_def open_rasterio_def)

lemma crs_opened: "crs (open_rasterio f) = crs f"
  by (simp add: open_rasterio_def)

lemma mosaic_ex:
  "data (mosaic [open_rasterio bathy_ex, open_rasterio dem_ex] 2 (Suc 0) epsg)
   = [[Fin (- 5)], [Fin (- 2)]]"
  by (simp add: mosaic_def blank_def paint_first_def has_value_def value_at_def sample_def
      bathy_ex_def dem_ex_def open_rasterio_def numeral_2_eq_2 upt_rec)

lemma mosaic_whole:
  "data (mosaic [write_crs 25833 (open_rasterio tile_whole)] 2 2 epsg)
     = [[Fin 16777217, Fin 1], [Fin 2, Fin 3]]"
  by (simp add: mosaic_def blank_def paint_first_def has_value_def value_at_def sample_def
      tile_whole_def write_crs_def open_rasterio_def numeral_2_eq_2 upt_rec)

lemma whole_deliverable: "xyz_deliverable (data tile_whole)"
  by (simp add: xyz_deliverable_def tile_whole_def)

text \<open>
  Claim C8 says that a failing write never leaves a partial file at the output path. It
  fails: cell 6 on the two example rasters, with the raster library on a device that
  runs full, leaves a truncated file at the output path, where no file was.
\<close>

theorem atomic_write_counterexample:
  "merged_dir fs_three merge_path = None \<and>
   combine_cell full_device_writer fs_three bathy_ex dem_ex 2 1 =
     (fs_three\<lparr>merged_dir := (merged_dir fs_three)(merge_path \<mapsto> Truncated)\<rparr>, None)"
proof -
  have k: "crs bathy_ex \<noteq> None" "crs dem_ex \<noteq> None"
    by (simp_all add: bathy_ex_def dem_ex_def)
  have "merged_dir fs_three merge_path = None" by (simp add: fs_three_def)
  then show ?thesis
    using k by (auto simp add: combine_cell_def assign_opened merge_arrays_def crs_opened
        to_raster_stamped full_device_writer_def)
qed

text \<open>
  Claim C8, amended. The final raster is written in place: given two rasters that
  carry a reference system, all that cell 6 does to the file system is the one call of
  the raster library with the output path itself; the notebook writes no temporary
  path and renames nothing. So a partial file that a failing write leaves behind is
  left at the output path.
\<close>

theorem final_write_in_place:
  "crs bathy_file \<noteq> None \<Longrightarrow> crs dem_file \<noteq> None \<Longrightarrow>
   combine_cell writer s bathy_file dem_file h w =
     writer merge_path
       \<lparr>g_dtype = Float32, g_crs = Some 25833, g_nodata = Some (- 9999),
        g_rows = map (map astype_float32)
          (data (mosaic [open_rasterio bathy_file, open_rasterio dem_file] h w epsg))\<rparr> s"
  by (auto simp add: combine_cell_def assign_opened merge_arrays_def crs_opened
      to_raster_stamped)

text \<open>
  The amended claim at the two example rasters, on a device that works: the whole file
  is at the output path, the bathymetry over the topography as the file holds it.
\<close>

theorem final_write_in_place_witness:
  "crs bathy_ex \<noteq> None \<and> crs dem_ex \<noteq> None \<and>
   combine_cell ideal_writer fs_three bathy_ex dem_ex 2 1 =
     (fs_three\<lparr>merged_dir := (merged_dir fs_three)(merge_path \<mapsto>
        Whole \<lparr>g_dtype = Float32, g_crs = Some 25833, g_nodata = Some (- 9999),
               g_rows = [[Fin (- 5)], [Fin (- 2)]]\<rparr>)\<rparr>,
      None)"
proof -
  have k: "crs bathy_ex \<noteq> None" "crs dem_ex \<noteq> None"
    by (simp_all add: bathy_ex_def dem_ex_def)
  from final_write_in_place [OF k, of ideal_writer fs_three 2 1] k
  show ?thesis
    by (simp add: mosaic_ex f32_small ideal_writer_def del: astype_float32.simps)
qed

text \<open>
  Claim C9 says that a narrowing to the storage type that changes a value is raised as
  an error. It fails: the tile of whole depths is one that \<^verbatim>\<open>open_rasterio\<close> can
  deliver; cell 5 holds the elevation \<open>-16777217\<close> in memory, the file holds
  \<open>-16777216\<close>, and nothing is raised.
\<close>

theorem narrowing_error_counterexample:
  "xyz_deliverable (data tile_whole) \<and>
   sign_inversion (data (mosaic (map (write_crs 25833) (map open_rasterio [tile_whole])) 2 2 epsg))
     = [[Fin (- 16777217), Fin (- 1)], [Fin (- 2), Fin (- 3)]] \<and>
   merge_cell ideal_writer fs_three [tile_whole] 2 2 =
     (fs_three\<lparr>merged_dir := (merged_dir fs_three)(bathy_path \<mapsto>
        Whole \<lparr>g_dtype = Float32, g_crs = Some 25833, g_nodata = Some (- 9999),
               g_rows = [[Fin (- 16777216), Fin (- 1)], [Fin (- 2), Fin (- 3)]]\<rparr>)\<rparr>,
      None)"
  unfolding merge_cell_def merge_arrays_stamped sum.case to_raster_stamped
  by (simp add: whole_deliverable mosaic_whole sign_inversion_def f32_small f32_whole
      ideal_writer_def del: astype_float32.simps)

text \<open>
  Claim C9, amended. When a raster is serialized, every pixel is cast to the configured
  storage type, 32-bit floating point, without a check: for every list of tiles, all
  that cell 5 does is hand the pixels, rounded to 32 bits, to the raster library; it
  raises no error of its own, whatever the rounding changes.
\<close>

theorem narrowing_is_silent:
  "merge_cell writer s tiles h w =
     writer bathy_path
       \<lparr>g_dtype = Float32, g_crs = Some 25833, g_nodata = Some (- 9999),
        g_rows = map (map astype_float32)
          (sign_inversion
             (data (mosaic (map (write_crs 25833) (map open_rasterio tiles)) h w epsg)))\<rparr> s"
  unfolding merge_cell_def merge_arrays_stamped sum.case to_raster_stamped
  by simp

end
